theory Spec2Isabelle
  imports Complex_Main
begin

section \<open>Data model of main.py\<close>

text \<open>
  A naive Python \<open>datetime\<close> has microsecond resolution and is totally ordered; it is
  modelled as the number of microseconds since a fixed origin. A Python/SQL \<open>float\<close> is
  modelled as a real number: finite values only, rounding is not modelled.
\<close>

type_synonym datetime = int

text \<open>
  The table \<open>rolls\<close> (class \<open>Roll\<close>). \<open>id\<close> is the primary key, \<open>length\<close> and
  \<open>weight\<close> are \<open>nullable=False\<close>, the two dates are nullable columns. The fields
  \<open>id\<close> and \<open>length\<close> carry a suffix because HOL has constants of these names.
\<close>

record Roll =
  id_col :: int
  length_col :: real
  weight :: real
  date_added :: "datetime option"
  date_removed :: "datetime option"

text \<open>The request body \<open>RollCreate\<close> (fields \<open>length\<close>, \<open>weight\<close>).\<close>

record RollCreate =
  length_rc :: real
  weight_rc :: real

record RollStats =
  added_count :: int
  removed_count :: int
  avg_length :: real
  avg_weight :: real
  min_length :: real
  max_length :: real
  min_weight :: real
  max_weight :: real
  total_weight :: real
  min_gap :: real
  max_gap :: real

text \<open>
  The exceptions the code can raise: \<open>HTTPException(status_code, detail)\<close> raised by
  the code itself; \<open>ValueError\<close> is what \<open>min\<close>/\<open>max\<close> raise on an empty sequence,
  \<open>ZeroDivisionError\<close> what \<open>/\<close> raises on a zero divisor, and
  \<open>DetachedInstanceError\<close> what the ORM raises when an attribute of an expired object
  is read after its session was closed.
\<close>

datatype exception =
    HTTPException (status_code: nat) (detail: string)
  | ValueError
  | ZeroDivisionError
  | DetachedInstanceError

text \<open>The spec's names of the two domain conditions, as the repository raises them.\<close>

abbreviation NotFound :: exception where
  "NotFound \<equiv> HTTPException 404 ''Roll not found''"

abbreviation AlreadyRemoved :: exception where
  "AlreadyRemoved \<equiv> HTTPException 400 ''Roll already removed''"

text \<open>
  The store is the table: the list of its rows in the order the store returns them
  (\<open>query.all()\<close> has no \<open>ORDER BY\<close>). Every repository method opens its own session on
  it; only \<open>commit()\<close> writes a session's changes to the table, so a method returns its
  result (or the exception it raises) together with the table after the call. The
  clock reading \<open>datetime.now()\<close> is an input of the methods that read it. The store
  is taken to be available and ids to lie in its 64-bit integer range: a failing
  connection or statement is not modelled.
\<close>

type_synonym store = "Roll list"

text \<open>The primary-key constraint on \<open>id\<close>.\<close>

definition primary_key :: "store \<Rightarrow> bool" where
  "primary_key db = distinct (map id_col db)"

text \<open>
  A \<open>Roll\<close> object as the caller of a repository method holds it, after the method
  closed its session. \<open>SessionLocal\<close> keeps the default \<open>expire_on_commit\<close>, so
  \<open>commit()\<close> expires every attribute of the session's objects; an object that is not
  refreshed before \<open>close()\<close> stays expired and, being detached, cannot be loaded
  again: reading any of its fields raises. \<open>create_roll\<close> refreshes its object after
  the commit, and \<open>get_roll\<close> and \<open>get_rolls\<close> never commit: the objects they return
  are loaded, and those methods are written as returning the record itself.
\<close>

datatype roll_object = Loaded Roll | Expired

definition read_fields :: "roll_object \<Rightarrow> exception + Roll" where
  "read_fields obj =
     (case obj of
        Loaded r \<Rightarrow> Inr r
      | Expired \<Rightarrow> Inl DetachedInstanceError)"

section \<open>CRUDRoll\<close>

subsection \<open>delete\_roll\<close>

text \<open>
  The \<open>UPDATE rolls SET date_removed = ? WHERE id = ?\<close> that \<open>commit()\<close> flushes for the
  attribute assignment \<open>db_roll.date_removed = datetime.now()\<close>.
\<close>

definition update_date_removed :: "int \<Rightarrow> datetime \<Rightarrow> store \<Rightarrow> store" where
  "update_date_removed pk t db =
     map (\<lambda>r. if id_col r = pk then r\<lparr>date_removed := Some t\<rparr> else r) db"

text \<open>
  \<open>query(Roll).filter(Roll.id == roll_id).first()\<close> is the first matching row or
  \<open>None\<close>. A \<open>datetime\<close> object is always truthy, so \<open>if db_roll.date_removed\<close> tests
  for a non-null column. On the success path the method assigns the attribute,
  commits and returns \<open>db_roll\<close> with no \<open>refresh\<close> before the \<open>finally\<close> clause closes
  the session: the table holds the update, and the object returned is expired.
\<close>

definition delete_roll :: "datetime \<Rightarrow> int \<Rightarrow> store \<Rightarrow> (exception + roll_object) \<times> store" where
  "delete_roll now roll_id db =
     (case find (\<lambda>r. id_col r = roll_id) db of
        None \<Rightarrow> (Inl (HTTPException 404 ''Roll not found''), db)
      | Some db_roll \<Rightarrow>
          (case date_removed db_roll of
             Some _ \<Rightarrow> (Inl (HTTPException 400 ''Roll already removed''), db)
           | None \<Rightarrow> (Inr Expired, update_date_removed (id_col db_roll) now db)))"

subsection \<open>create\_roll\<close>

text \<open>
  The store assigns the primary key on \<open>INSERT\<close>. For an integer primary key SQLite
  (the configured \<open>DATABASE_URL\<close>) takes the largest key in the table plus one, and 1
  for an empty table.
\<close>

definition next_id :: "store \<Rightarrow> int" where
  "next_id db = (if db = [] then 1 else Max (set (map id_col db)) + 1)"

text \<open>
  \<open>Roll(**roll.dict())\<close> sets \<open>length\<close> and \<open>weight\<close> only; on \<open>commit()\<close> the column
  default \<open>datetime.now\<close> fills \<open>date_added\<close>, \<open>date_removed\<close> stays \<open>NULL\<close>, and
  \<open>refresh\<close> loads the inserted row.
\<close>

definition create_roll :: "datetime \<Rightarrow> RollCreate \<Rightarrow> store \<Rightarrow> (exception + Roll) \<times> store" where
  "create_roll now roll db =
     (let db_roll = \<lparr>id_col = next_id db, length_col = length_rc roll, weight = weight_rc roll,
                     date_added = Some now, date_removed = None\<rparr>
      in (Inr db_roll, db @ [db_roll]))"

subsection \<open>get\_roll\<close>

definition get_roll :: "int \<Rightarrow> store \<Rightarrow> (exception + Roll) \<times> store" where
  "get_roll roll_id db =
     (case find (\<lambda>r. id_col r = roll_id) db of
        None \<Rightarrow> (Inl (HTTPException 404 ''Roll not found''), db)
      | Some db_roll \<Rightarrow> (Inr db_roll, db))"

subsection \<open>get\_rolls\<close>

text \<open>
  SQL comparisons of a nullable column with a bound: a \<open>NULL\<close> column makes the
  comparison \<open>NULL\<close>, and \<open>WHERE\<close> drops the row.
\<close>

definition sql_ge :: "datetime option \<Rightarrow> datetime \<Rightarrow> bool" where
  "sql_ge col v = (case col of None \<Rightarrow> False | Some c \<Rightarrow> v \<le> c)"

definition sql_le :: "datetime option \<Rightarrow> datetime \<Rightarrow> bool" where
  "sql_le col v = (case col of None \<Rightarrow> False | Some c \<Rightarrow> c \<le> v)"

text \<open>Each \<open>if ... is not None: query = query.filter(...)\<close> narrows the query in turn.\<close>

definition get_rolls ::
  "real option \<Rightarrow> real option \<Rightarrow> real option \<Rightarrow> real option \<Rightarrow>
   datetime option \<Rightarrow> datetime option \<Rightarrow> datetime option \<Rightarrow> datetime option \<Rightarrow>
   store \<Rightarrow> (exception + Roll list) \<times> store" where
  "get_rolls length_min length_max weight_min weight_max
             date_added_min date_added_max date_removed_min date_removed_max db =
     (let query = db;
          query = (case length_min of None \<Rightarrow> query
                   | Some m \<Rightarrow> filter (\<lambda>r. length_col r \<ge> m) query);
          query = (case length_max of None \<Rightarrow> query
                   | Some m \<Rightarrow> filter (\<lambda>r. length_col r \<le> m) query);
          query = (case weight_min of None \<Rightarrow> query
                   | Some m \<Rightarrow> filter (\<lambda>r. weight r \<ge> m) query);
          query = (case weight_max of None \<Rightarrow> query
                   | Some m \<Rightarrow> filter (\<lambda>r. weight r \<le> m) query);
          query = (case date_added_min of None \<Rightarrow> query
                   | Some m \<Rightarrow> filter (\<lambda>r. sql_ge (date_added r) m) query);
          query = (case date_added_max of None \<Rightarrow> query
                   | Some m \<Rightarrow> filter (\<lambda>r. sql_le (date_added r) m) query);
          query = (case date_removed_min of None \<Rightarrow> query
                   | Some m \<Rightarrow> filter (\<lambda>r. sql_ge (date_removed r) m) query);
          query = (case date_removed_max of None \<Rightarrow> query
                   | Some m \<Rightarrow> filter (\<lambda>r. sql_le (date_removed r) m) query)
      in (Inr query, db))"

subsection \<open>get\_stats\<close>

text \<open>The Python built-ins the method uses, with the exceptions they raise.\<close>

definition py_sum :: "real list \<Rightarrow> real" where
  "py_sum xs = foldl (+) 0 xs"

fun py_min :: "real list \<Rightarrow> exception + real" where
  "py_min [] = Inl ValueError"
| "py_min (x # xs) = Inr (fold (\<lambda>item best. if item < best then item else best) xs x)"

fun py_max :: "real list \<Rightarrow> exception + real" where
  "py_max [] = Inl ValueError"
| "py_max (x # xs) = Inr (fold (\<lambda>item best. if item > best then item else best) xs x)"

definition py_truediv :: "real \<Rightarrow> real \<Rightarrow> exception + real" where
  "py_truediv a b = (if b = 0 then Inl ZeroDivisionError else Inr (a / b))"

text \<open>\<open>timedelta.total_seconds()\<close>: the difference of two datetimes, in seconds.\<close>

definition total_seconds :: "int \<Rightarrow> real" where
  "total_seconds td = real_of_int td / 1000000"

text \<open>A raised exception ends the method: the rest runs on a returned value only.\<close>

definition and_then :: "exception + 'a \<Rightarrow> ('a \<Rightarrow> exception + 'b) \<Rightarrow> exception + 'b" where
  "and_then res f = (case res of Inl e \<Rightarrow> Inl e | Inr v \<Rightarrow> f v)"

text \<open>\<open>column.between(lo, hi)\<close> is SQL's \<open>BETWEEN\<close>, false on a \<open>NULL\<close> column.\<close>

definition between :: "datetime option \<Rightarrow> datetime \<Rightarrow> datetime \<Rightarrow> bool" where
  "between col lo hi = (case col of None \<Rightarrow> False | Some c \<Rightarrow> lo \<le> c \<and> c \<le> hi)"

text \<open>
  The list comprehension \<open>gaps\<close>: one entry for each removed roll with both dates
  truthy, in hours.
\<close>

definition gaps_of :: "Roll list \<Rightarrow> real list" where
  "gaps_of rolls_removed =
     concat (map (\<lambda>roll. case (date_removed roll, date_added roll) of
                            (Some dr, Some da) \<Rightarrow> [total_seconds (dr - da) / 3600]
                          | _ \<Rightarrow> []) rolls_removed)"

definition get_stats :: "datetime \<Rightarrow> datetime \<Rightarrow> store \<Rightarrow> (exception + RollStats) \<times> store" where
  "get_stats start_date end_date db =
     (let rolls_added = filter (\<lambda>roll. between (date_added roll) start_date end_date) db;
          rolls_removed = filter (\<lambda>roll. between (date_removed roll) start_date end_date) db;
          added_count = int (length rolls_added);
          removed_count = int (length rolls_removed);
          added_part =
            (if added_count > 0 then
               and_then (py_truediv (py_sum (map length_col rolls_added)) (real_of_int added_count))
                 (\<lambda>avg_length.
               and_then (py_truediv (py_sum (map weight rolls_added)) (real_of_int added_count))
                 (\<lambda>avg_weight.
               and_then (py_min (map length_col rolls_added)) (\<lambda>min_length.
               and_then (py_max (map length_col rolls_added)) (\<lambda>max_length.
               and_then (py_min (map weight rolls_added)) (\<lambda>min_weight.
               and_then (py_max (map weight rolls_added)) (\<lambda>max_weight.
                 Inr (avg_length, avg_weight, min_length, max_length, min_weight, max_weight)))))))
             else Inr (0, 0, 0, 0, 0, 0));
          total_weight = py_sum (map weight rolls_added);
          gaps = gaps_of rolls_removed;
          gap_part =
            (if gaps \<noteq> [] then
               and_then (py_min gaps) (\<lambda>min_gap.
               and_then (py_max gaps) (\<lambda>max_gap. Inr (min_gap, max_gap)))
             else Inr (0, 0))
      in (and_then added_part
            (\<lambda>(avg_length, avg_weight, min_length, max_length, min_weight, max_weight).
          and_then gap_part (\<lambda>(min_gap, max_gap).
            Inr \<lparr>added_count = added_count, removed_count = removed_count,
                 avg_length = avg_length, avg_weight = avg_weight,
                 min_length = min_length, max_length = max_length,
                 min_weight = min_weight, max_weight = max_weight,
                 total_weight = total_weight, min_gap = min_gap, max_gap = max_gap\<rparr>)),
          db))"

section \<open>Endpoint layer\<close>

text \<open>
  Each endpoint wraps the repository call in \<open>try: ... except Exception\<close> and raises
  \<open>HTTPException(500, "Internal Server Error")\<close> from the handler; \<open>HTTPException\<close> is a
  subclass of \<open>Exception\<close>, so the handler catches the repository's own
  \<open>HTTPException\<close>s too. The dependency \<open>get_db\<close> opens and closes a session that no
  endpoint uses. \<open>response_model=RollResponse\<close> makes the framework read the five
  fields of the object the endpoint returns, after the endpoint's \<open>try\<close> block: an
  exception raised there is not caught by the handler.
\<close>

definition delete_roll_endpoint ::
  "datetime \<Rightarrow> int \<Rightarrow> store \<Rightarrow> (exception + Roll) \<times> store" where
  "delete_roll_endpoint now roll_id db =
     (case delete_roll now roll_id db of
        (Inr db_roll, db') \<Rightarrow> (read_fields db_roll, db')
      | (Inl e, db') \<Rightarrow> (Inl (HTTPException 500 ''Internal Server Error''), db'))"

definition get_roll_endpoint :: "int \<Rightarrow> store \<Rightarrow> (exception + Roll) \<times> store" where
  "get_roll_endpoint roll_id db =
     (case get_roll roll_id db of
        (Inr r, db') \<Rightarrow> (Inr r, db')
      | (Inl e, db') \<Rightarrow> (Inl (HTTPException 500 ''Internal Server Error''), db'))"

text \<open>
  The status of the response the framework sends: 200 for a returned value, the
  exception's \<open>status_code\<close> for an \<open>HTTPException\<close>, 500 for any other exception.
\<close>

definition response_status :: "exception + 'a \<Rightarrow> nat" where
  "response_status res =
     (case res of
        Inr _ \<Rightarrow> 200
      | Inl (HTTPException sc _) \<Rightarrow> sc
      | Inl _ \<Rightarrow> 500)"

section \<open>Operations and the per-roll invariant\<close>





section \<open>The specification's wording\<close>

text \<open>
  The filter contract of \<open>list\<close>: a record satisfies a present bound when its field
  has a value and that value compares inclusively with the bound; an absent bound
  imposes nothing.
\<close>

definition satisfies_min :: "'a::linorder option \<Rightarrow> 'a option \<Rightarrow> bool" where
  "satisfies_min bound field =
     (case bound of None \<Rightarrow> True
      | Some m \<Rightarrow> (case field of None \<Rightarrow> False | Some v \<Rightarrow> v \<ge> m))"

definition satisfies_max :: "'a::linorder option \<Rightarrow> 'a option \<Rightarrow> bool" where
  "satisfies_max bound field =
     (case bound of None \<Rightarrow> True
      | Some m \<Rightarrow> (case field of None \<Rightarrow> False | Some v \<Rightarrow> v \<le> m))"

definition satisfies_bounds ::
  "real option \<Rightarrow> real option \<Rightarrow> real option \<Rightarrow> real option \<Rightarrow>
   datetime option \<Rightarrow> datetime option \<Rightarrow> datetime option \<Rightarrow> datetime option \<Rightarrow> Roll \<Rightarrow> bool" where
  "satisfies_bounds lengthMin lengthMax weightMin weightMax
                    dateAddedMin dateAddedMax dateRemovedMin dateRemovedMax r =
     (satisfies_min lengthMin (Some (length_col r)) \<and>
      satisfies_max lengthMax (Some (length_col r)) \<and>
      satisfies_min weightMin (Some (weight r)) \<and>
      satisfies_max weightMax (Some (weight r)) \<and>
      satisfies_min dateAddedMin (date_added r) \<and>
      satisfies_max dateAddedMax (date_added r) \<and>
      satisfies_min dateRemovedMin (date_removed r) \<and>
      satisfies_max dateRemovedMax (date_removed r))"

text \<open>
  The windows of \<open>statsInRange\<close>: \<open>addedSet\<close> and \<open>removedSet\<close> are the rolls whose
  \<open>date_added\<close>, respectively \<open>date_removed\<close>, lies in \<open>[startDate, endDate]\<close>.
\<close>

definition in_window :: "datetime option \<Rightarrow> datetime \<Rightarrow> datetime \<Rightarrow> bool" where
  "in_window t startDate endDate =
     (case t of None \<Rightarrow> False | Some v \<Rightarrow> v \<in> {startDate..endDate})"

definition addedSet :: "datetime \<Rightarrow> datetime \<Rightarrow> store \<Rightarrow> Roll set" where
  "addedSet startDate endDate db = {r \<in> set db. in_window (date_added r) startDate endDate}"

definition removedSet :: "datetime \<Rightarrow> datetime \<Rightarrow> store \<Rightarrow> Roll set" where
  "removedSet startDate endDate db = {r \<in> set db. in_window (date_removed r) startDate endDate}"

text \<open>
  The gap of a roll with both timestamps: the elapsed seconds from \<open>date_added\<close> to
  \<open>date_removed\<close> (a microsecond count over \<open>10^6\<close>), divided by 3600.
\<close>

definition gap :: "Roll \<Rightarrow> real" where
  "gap r = (real_of_int (the (date_removed r) - the (date_added r)) / 1000000) / 3600"

definition gapSet :: "datetime \<Rightarrow> datetime \<Rightarrow> store \<Rightarrow> real set" where
  "gapSet startDate endDate db =
     gap ` {r \<in> removedSet startDate endDate db. date_added r \<noteq> None \<and> date_removed r \<noteq> None}"

section \<open>Example data\<close>

text \<open>A table of two rolls: roll 1 was removed at time 40, roll 2 is still active.\<close>

definition example_db :: store where
  "example_db =
     [\<lparr>id_col = 1, length_col = 5, weight = 10, date_added = Some 10, date_removed = Some 40\<rparr>,
      \<lparr>id_col = 2, length_col = 10, weight = 20, date_added = Some 20, date_removed = None\<rparr>]"

text \<open>
  A table for the statistics. Rolls 1 to 3 are added inside the window from 1000 to
  10000000000 (lengths 5, 10, 15 and weights 10, 20, 30); roll 2 is removed two hours
  (7200000000 microseconds) after it was added. Roll 4 is added before the window and
  removed inside it, one hour after it was added.
\<close>

definition stats_db :: store where
  "stats_db =
     [\<lparr>id_col = 1, length_col = 5, weight = 10, date_added = Some 1000, date_removed = None\<rparr>,
      \<lparr>id_col = 2, length_col = 10, weight = 20, date_added = Some 2000,
         date_removed = Some 7200002000\<rparr>,
      \<lparr>id_col = 3, length_col = 15, weight = 30, date_added = Some 3000, date_removed = None\<rparr>,
      \<lparr>id_col = 4, length_col = 100, weight = 200, date_added = Some 0,
         date_removed = Some 3600000000\<rparr>]"

section \<open>Auxiliary facts\<close>

lemma find_none_iff_id: "find (\<lambda>r. id_col r = i) db = None \<longleftrightarrow> i \<notin> id_col ` set db"
  by (auto simp: find_None_iff)

lemma find_id_nth:
  assumes "distinct (map id_col db)" and "k < length db"
  shows "find (\<lambda>r. id_col r = id_col (db ! k)) db = Some (db ! k)"
  using assms
proof (induction db arbitrary: k)
  case Nil
  then show ?case by simp
next
  case (Cons a db)
  show ?case
  proof (cases k)
    case 0
    then show ?thesis by simp
  next
    case (Suc j)
    with Cons.prems have j: "j < length db" and d: "distinct (map id_col db)"
      and a: "id_col a \<notin> id_col ` set db" by auto
    from j have "db ! j \<in> set db" by simp
    with a have "id_col a \<noteq> id_col (db ! j)" by force
    with Cons.IH [OF d j] Suc show ?thesis by simp
  qed
qed

lemma update_date_removed_nth:
  assumes "distinct (map id_col db)" and "k < length db"
  shows "update_date_removed (id_col (db ! k)) t db = db[k := (db ! k)\<lparr>date_removed := Some t\<rparr>]"
proof (rule nth_equalityI)
  show "length (update_date_removed (id_col (db ! k)) t db)
      = length (db[k := (db ! k)\<lparr>date_removed := Some t\<rparr>])"
    by (simp add: update_date_removed_def)
next
  fix j assume "j < length (update_date_removed (id_col (db ! k)) t db)"
  then have j: "j < length db" by (simp add: update_date_removed_def)
  show "update_date_removed (id_col (db ! k)) t db ! j
      = db[k := (db ! k)\<lparr>date_removed := Some t\<rparr>] ! j"
  proof (cases "j = k")
    case True
    with j show ?thesis by (simp add: update_date_removed_def)
  next
    case False
    with assms j have "id_col (db ! j) \<noteq> id_col (db ! k)"
      by (simp add: distinct_conv_nth)
    with False j show ?thesis by (simp add: update_date_removed_def)
  qed
qed

section \<open>Claim C1: outcomes of delete\<close>

lemma map_id_col_list_update:
  "k < length db \<Longrightarrow> map id_col (db[k := (db ! k)\<lparr>date_removed := x\<rparr>]) = map id_col db"
  by (simp add: map_update list_update_same_conv)

text \<open>
  What \<open>delete_roll\<close> does on a table that satisfies the primary-key constraint. It
  raises \<open>NotFound\<close> when no record has the id and \<open>AlreadyRemoved\<close> when the record's
  \<open>date_removed\<close> is set, leaving the table as it was. Otherwise it stores
  \<open>date_removed := now\<close> in that record and in no other, and returns the expired
  object; a second delete of the same id then raises \<open>AlreadyRemoved\<close>.
\<close>

lemma delete_roll_cases:
  assumes pk: "primary_key db"
  shows "(roll_id \<notin> id_col ` set db \<longrightarrow> delete_roll now roll_id db = (Inl NotFound, db)) \<and>
         (\<forall>k<length db. id_col (db ! k) = roll_id \<longrightarrow>
            (date_removed (db ! k) \<noteq> None \<longrightarrow>
               delete_roll now roll_id db = (Inl AlreadyRemoved, db)) \<and>
            (date_removed (db ! k) = None \<longrightarrow>
               delete_roll now roll_id db =
                 (Inr Expired, db[k := (db ! k)\<lparr>date_removed := Some now\<rparr>]) \<and>
               delete_roll later roll_id (snd (delete_roll now roll_id db)) =
                 (Inl AlreadyRemoved, snd (delete_roll now roll_id db))))"
proof (intro conjI allI impI)
  assume "roll_id \<notin> id_col ` set db"
  then have "find (\<lambda>r. id_col r = roll_id) db = None"
    by (simp add: find_none_iff_id)
  then show "delete_roll now roll_id db = (Inl NotFound, db)"
    by (simp add: delete_roll_def)
next
  fix k assume k: "k < length db" and i: "id_col (db ! k) = roll_id"
    and rem: "date_removed (db ! k) \<noteq> None"
  from pk k i have "find (\<lambda>r. id_col r = roll_id) db = Some (db ! k)"
    using find_id_nth [of db k] by (simp add: primary_key_def)
  with rem show "delete_roll now roll_id db = (Inl AlreadyRemoved, db)"
    by (auto simp: delete_roll_def)
next
  fix k assume k: "k < length db" and i: "id_col (db ! k) = roll_id"
    and act: "date_removed (db ! k) = None"
  let ?r' = "(db ! k)\<lparr>date_removed := Some now\<rparr>"
  let ?db' = "db[k := ?r']"
  from pk k i have f: "find (\<lambda>r. id_col r = roll_id) db = Some (db ! k)"
    using find_id_nth [of db k] by (simp add: primary_key_def)
  from pk k i have u: "update_date_removed roll_id now db = ?db'"
    using update_date_removed_nth [of db k now] by (simp add: primary_key_def)
  from f u act i show first: "delete_roll now roll_id db = (Inr Expired, ?db')"
    by (simp add: delete_roll_def)
  from pk k have pk': "distinct (map id_col ?db')"
    by (simp add: primary_key_def map_id_col_list_update)
  from k have k': "k < length ?db'" and at: "?db' ! k = ?r'" by simp_all
  from i at have "id_col (?db' ! k) = roll_id" by simp
  with find_id_nth [OF pk' k'] at
  have "find (\<lambda>r. id_col r = roll_id) ?db' = Some ?r'" by simp
  then have "delete_roll later roll_id ?db' = (Inl AlreadyRemoved, ?db')"
    by (simp add: delete_roll_def)
  with first show "delete_roll later roll_id (snd (delete_roll now roll_id db)) =
      (Inl AlreadyRemoved, snd (delete_roll now roll_id db))"
    by simp
qed

text \<open>
  Claim C1 (the code departs from it). Deleting the active roll 2 of the example
  table at time 50 stores \<open>date_removed = 50\<close> and a second delete raises
  \<open>AlreadyRemoved\<close>, as the claim says; but the first delete does not return the
  updated record: the object it returns is expired, reading its fields raises
  \<open>DetachedInstanceError\<close>, and the endpoint answers the successful delete with
  status 500. \<open>create_roll\<close>, which refreshes its object, returns a readable record.
\<close>

theorem delete_roll_returns_expired_object:
  "delete_roll 50 2 example_db =
     (Inr Expired,
      [\<lparr>id_col = 1, length_col = 5, weight = 10, date_added = Some 10, date_removed = Some 40\<rparr>,
       \<lparr>id_col = 2, length_col = 10, weight = 20, date_added = Some 20, date_removed = Some 50\<rparr>]) \<and>
   read_fields Expired = Inl DetachedInstanceError \<and>
   fst (delete_roll_endpoint 50 2 example_db) = Inl DetachedInstanceError \<and>
   response_status (fst (delete_roll_endpoint 50 2 example_db)) = 500 \<and>
   delete_roll 60 2 (snd (delete_roll 50 2 example_db)) =
     (Inl AlreadyRemoved, snd (delete_roll 50 2 example_db)) \<and>
   fst (create_roll 50 \<lparr>length_rc = 10, weight_rc = 20\<rparr> example_db) =
     Inr \<lparr>id_col = 3, length_col = 10, weight = 20, date_added = Some 50, date_removed = None\<rparr>"
  by (simp add: delete_roll_def delete_roll_endpoint_def update_date_removed_def read_fields_def
      response_status_def create_roll_def Let_def next_id_def example_db_def)

section \<open>Claim C2: status codes of the endpoint layer\<close>

text \<open>
  Claim C2 (the code departs from it). The repository raises the 404 and 400
  conditions, and the endpoints answer each of them with status 500: deleting the
  absent id 9999, deleting the already removed roll 1, and fetching the absent id 9999.
\<close>

theorem endpoint_statuses_at_domain_conditions:
  "response_status (fst (delete_roll 50 9999 example_db)) = 404 \<and>
   response_status (fst (delete_roll_endpoint 50 9999 example_db)) = 500 \<and>
   response_status (fst (delete_roll 50 1 example_db)) = 400 \<and>
   response_status (fst (delete_roll_endpoint 50 1 example_db)) = 500 \<and>
   response_status (fst (get_roll 9999 example_db)) = 404 \<and>
   response_status (fst (get_roll_endpoint 9999 example_db)) = 500"
  by (simp add: delete_roll_endpoint_def get_roll_endpoint_def delete_roll_def get_roll_def
      response_status_def example_db_def)

section \<open>Claim C10: reads leave the store unchanged\<close>

text \<open>
  Claim C10. The table after \<open>get_roll\<close> (found or not) and after \<open>get_rolls\<close> (any
  combination of bounds) is the table before the call.
\<close>

theorem reads_leave_store_unchanged:
  "snd (get_roll roll_id db) = db \<and>
   snd (get_rolls length_min length_max weight_min weight_max
          date_added_min date_added_max date_removed_min date_removed_max db) = db"
  by (simp add: get_roll_def get_rolls_def Let_def split: option.split)

section \<open>Claim C8: create\<close>

lemma next_id_fresh: "next_id db \<notin> id_col ` set db"
proof (cases "db = []")
  case True
  then show ?thesis by simp
next
  case False
  have "\<forall>r\<in>set db. id_col r < next_id db"
  proof
    fix r assume "r \<in> set db"
    then have "id_col r \<le> Max (set (map id_col db))" by simp
    with False show "id_col r < next_id db" by (simp add: next_id_def)
  qed
  then show ?thesis by force
qed

text \<open>
  Claim C8. \<open>create_roll\<close> returns a new record with the given length and weight,
  \<open>date_added\<close> the current time and \<open>date_removed\<close> null; its id is the one the store
  assigns, which no record of the table has; and the table afterwards is the old
  table, unchanged, followed by the new record.
\<close>

theorem create_roll_inserts:
  "\<exists>r. create_roll now roll db = (Inr r, db @ [r]) \<and>
       length_col r = length_rc roll \<and> weight r = weight_rc roll \<and>
       date_added r = Some now \<and> date_removed r = None \<and>
       id_col r = next_id db \<and> id_col r \<notin> id_col ` set db"
  using next_id_fresh [of db] by (simp add: create_roll_def Let_def)

theorem create_roll_inserts_witness:
  "create_roll 77 \<lparr>length_rc = 10, weight_rc = 20\<rparr> example_db =
     (Inr \<lparr>id_col = 3, length_col = 10, weight = 20, date_added = Some 77, date_removed = None\<rparr>,
      example_db @
      [\<lparr>id_col = 3, length_col = 10, weight = 20, date_added = Some 77, date_removed = None\<rparr>])"
proof -
  have n: "next_id example_db = 3" by (simp add: next_id_def example_db_def)
  from create_roll_inserts [of 77 "\<lparr>length_rc = 10, weight_rc = 20\<rparr>" example_db]
  obtain r where "create_roll 77 \<lparr>length_rc = 10, weight_rc = 20\<rparr> example_db = (Inr r, example_db @ [r])"
    and "length_col r = 10" and "weight r = 20" and "date_added r = Some 77"
    and "date_removed r = None" and "id_col r = next_id example_db"
    by auto
  with n show ?thesis by (cases r) simp
qed

section \<open>Claim C3: a window with start after end\<close>

lemma between_empty_window: "end_date < start_date \<Longrightarrow> between col start_date end_date = False"
  by (simp add: between_def split: option.split)

text \<open>
  The claim as stated fails: for the window from 100 back to 0 \<open>get_stats\<close> returns a
  \<open>RollStats\<close> record and raises nothing.
\<close>

theorem get_stats_inverted_window_counterexample:
  "(100::int) > 0 \<and>
   fst (get_stats 100 0 example_db) =
     Inr \<lparr>added_count = 0, removed_count = 0, avg_length = 0, avg_weight = 0,
          min_length = 0, max_length = 0, min_weight = 0, max_weight = 0,
          total_weight = 0, min_gap = 0, max_gap = 0\<rparr>"
  by (simp add: get_stats_def between_def example_db_def and_then_def gaps_of_def py_sum_def)

text \<open>
  Claim C3, amended. For every pair of timestamps with \<open>start_date > end_date\<close>,
  \<open>get_stats\<close> raises nothing: it returns the \<open>RollStats\<close> record whose eleven fields
  are all 0, and leaves the table unchanged.
\<close>

theorem get_stats_inverted_window:
  assumes "start_date > end_date"
  shows "get_stats start_date end_date db =
     (Inr \<lparr>added_count = 0, removed_count = 0, avg_length = 0, avg_weight = 0,
           min_length = 0, max_length = 0, min_weight = 0, max_weight = 0,
           total_weight = 0, min_gap = 0, max_gap = 0\<rparr>, db)"
  using assms
  by (simp add: get_stats_def between_empty_window and_then_def gaps_of_def py_sum_def)

theorem get_stats_inverted_window_witness:
  "get_stats 100 0 example_db =
     (Inr \<lparr>added_count = 0, removed_count = 0, avg_length = 0, avg_weight = 0,
           min_length = 0, max_length = 0, min_weight = 0, max_weight = 0,
           total_weight = 0, min_gap = 0, max_gap = 0\<rparr>, example_db)"
proof -
  have "(100::int) > 0" by simp
  then show ?thesis by (rule get_stats_inverted_window)
qed

section \<open>The value of get\_stats\<close>

lemma py_sum_sum_list: "py_sum xs = sum_list xs"
proof -
  have "foldl (+) a xs = a + sum_list xs" for a :: real
    by (induction xs arbitrary: a) (simp_all add: add.assoc)
  then show ?thesis by (simp add: py_sum_def)
qed

lemma py_min_Min: "xs \<noteq> [] \<Longrightarrow> py_min xs = Inr (Min (set xs))"
proof (cases xs)
  case Nil
  assume "xs \<noteq> []"
  with Nil show ?thesis by simp
next
  case (Cons x ys)
  have "(\<lambda>item best :: real. if item < best then item else best) = min"
    by (intro ext) (simp add: min_def)
  then have "py_min (x # ys) = Inr (fold min ys x)" by simp
  also have "fold min ys x = Min (set (x # ys))" by (rule Min.set_eq_fold [symmetric])
  finally show ?thesis using Cons by simp
qed

lemma py_max_Max: "xs \<noteq> [] \<Longrightarrow> py_max xs = Inr (Max (set xs))"
proof (cases xs)
  case Nil
  assume "xs \<noteq> []"
  with Nil show ?thesis by simp
next
  case (Cons x ys)
  have "(\<lambda>item best :: real. if item > best then item else best) = max"
    by (intro ext) (simp add: max_def)
  then have "py_max (x # ys) = Inr (fold max ys x)" by simp
  also have "fold max ys x = Max (set (x # ys))" by (rule Max.set_eq_fold [symmetric])
  finally show ?thesis using Cons by simp
qed

lemma get_stats_value:
  fixes start_date end_date :: datetime and db :: store
  defines "A \<equiv> filter (\<lambda>roll. between (date_added roll) start_date end_date) db"
    and "R \<equiv> filter (\<lambda>roll. between (date_removed roll) start_date end_date) db"
  shows "get_stats start_date end_date db =
     (Inr \<lparr>added_count = int (length A), removed_count = int (length R),
           avg_length = (if A = [] then 0 else sum_list (map length_col A) / real (length A)),
           avg_weight = (if A = [] then 0 else sum_list (map weight A) / real (length A)),
           min_length = (if A = [] then 0 else Min (set (map length_col A))),
           max_length = (if A = [] then 0 else Max (set (map length_col A))),
           min_weight = (if A = [] then 0 else Min (set (map weight A))),
           max_weight = (if A = [] then 0 else Max (set (map weight A))),
           total_weight = sum_list (map weight A),
           min_gap = (if gaps_of R = [] then 0 else Min (set (gaps_of R))),
           max_gap = (if gaps_of R = [] then 0 else Max (set (gaps_of R)))\<rparr>, db)"
proof (cases "A = []")
  case True
  then show ?thesis
    unfolding get_stats_def A_def [symmetric] R_def [symmetric] Let_def
    by (simp add: and_then_def py_sum_sum_list py_min_Min py_max_Max)
next
  case False
  then have "length A \<noteq> 0" by simp
  with False show ?thesis
    unfolding get_stats_def A_def [symmetric] R_def [symmetric] Let_def
    by (simp add: and_then_def py_sum_sum_list py_min_Min py_max_Max py_truediv_def)
qed

lemma between_in_window: "between col s e = in_window col s e"
  by (simp add: between_def in_window_def split: option.split)

lemma set_added: "set (filter (\<lambda>roll. between (date_added roll) s e) db) = addedSet s e db"
  by (auto simp: addedSet_def between_in_window)

lemma set_removed: "set (filter (\<lambda>roll. between (date_removed roll) s e) db) = removedSet s e db"
  by (auto simp: removedSet_def between_in_window)

lemma primary_key_distinct: "primary_key db \<Longrightarrow> distinct db"
  by (auto simp: primary_key_def distinct_map)

lemma gaps_of_Nil: "gaps_of [] = []"
  by (simp add: gaps_of_def)

lemma gaps_of_Cons:
  "gaps_of (r # rs) =
     (if date_added r \<noteq> None \<and> date_removed r \<noteq> None then gap r # gaps_of rs else gaps_of rs)"
  by (simp add: gaps_of_def gap_def total_seconds_def split: option.split)

lemma set_gaps_of:
  "set (gaps_of rs) = gap ` {r \<in> set rs. date_added r \<noteq> None \<and> date_removed r \<noteq> None}"
proof (induction rs)
  case Nil
  show ?case by (simp add: gaps_of_Nil)
next
  case (Cons r rs)
  have split_set: "{x \<in> set (r # rs). date_added x \<noteq> None \<and> date_removed x \<noteq> None} =
      (if date_added r \<noteq> None \<and> date_removed r \<noteq> None then {r} else {}) \<union>
      {x \<in> set rs. date_added x \<noteq> None \<and> date_removed x \<noteq> None}"
    by auto
  show ?case
    unfolding split_set gaps_of_Cons image_Un
    using Cons.IH by (simp del: not_None_eq)
qed

lemma set_gaps_removed:
  "set (gaps_of (filter (\<lambda>roll. between (date_removed roll) s e) db)) = gapSet s e db"
  by (simp add: set_gaps_of gapSet_def set_removed [symmetric])

section \<open>Claim C4: statistics of the rolls added in the window\<close>

lemma added_list_facts:
  fixes s e :: datetime and db :: store
  assumes "primary_key db"
  defines "A \<equiv> filter (\<lambda>roll. between (date_added roll) s e) db"
  shows "length A = card (addedSet s e db)"
    and "sum_list (map f A) = sum f (addedSet s e db)"
    and "set (map f A) = f ` addedSet s e db"
    and "A = [] \<longleftrightarrow> addedSet s e db = {}"
proof -
  from assms(1) have d: "distinct A" by (simp add: A_def primary_key_distinct)
  have s: "set A = addedSet s e db" unfolding A_def by (rule set_added)
  from d s show "length A = card (addedSet s e db)" by (simp add: distinct_card [symmetric])
  from d s show "sum_list (map f A) = sum f (addedSet s e db)"
    by (simp add: sum_list_distinct_conv_sum_set)
  from s show "set (map f A) = f ` addedSet s e db" by simp
  from s show "A = [] \<longleftrightarrow> addedSet s e db = {}" by (metis set_empty)
qed

text \<open>
  Claim C4. On a table that satisfies the primary-key constraint, \<open>get_stats\<close> returns a
  \<open>RollStats\<close> record in which \<open>added_count\<close> is the number of rolls of \<open>addedSet\<close> and
  \<open>total_weight\<close> the sum of their weights; when \<open>addedSet\<close> is non-empty the two
  averages are the arithmetic means and the four extrema the least and greatest
  length and weight over \<open>addedSet\<close>; when \<open>addedSet\<close> is empty all six, and
  \<open>total_weight\<close>, are 0.
\<close>

theorem get_stats_added:
  assumes "primary_key db"
  shows "\<exists>st. get_stats startDate endDate db = (Inr st, db) \<and>
     added_count st = int (card (addedSet startDate endDate db)) \<and>
     total_weight st = (\<Sum>r \<in> addedSet startDate endDate db. weight r) \<and>
     (addedSet startDate endDate db \<noteq> {} \<longrightarrow>
        avg_length st = (\<Sum>r \<in> addedSet startDate endDate db. length_col r)
                          / real (card (addedSet startDate endDate db)) \<and>
        avg_weight st = (\<Sum>r \<in> addedSet startDate endDate db. weight r)
                          / real (card (addedSet startDate endDate db)) \<and>
        min_length st = Min (length_col ` addedSet startDate endDate db) \<and>
        max_length st = Max (length_col ` addedSet startDate endDate db) \<and>
        min_weight st = Min (weight ` addedSet startDate endDate db) \<and>
        max_weight st = Max (weight ` addedSet startDate endDate db)) \<and>
     (addedSet startDate endDate db = {} \<longrightarrow>
        avg_length st = 0 \<and> avg_weight st = 0 \<and> min_length st = 0 \<and> max_length st = 0 \<and>
        min_weight st = 0 \<and> max_weight st = 0 \<and> total_weight st = 0)"
  unfolding get_stats_value
  by (simp add: added_list_facts [OF assms] del: set_map)


theorem get_stats_added_witness:
  "primary_key stats_db \<and>
   (\<exists>st. get_stats 1000 10000000000 stats_db = (Inr st, stats_db) \<and>
      added_count st = 3 \<and> total_weight st = 60 \<and> avg_length st = 10 \<and> avg_weight st = 20 \<and>
      min_length st = 5 \<and> max_length st = 15 \<and> min_weight st = 10 \<and> max_weight st = 30) \<and>
   (\<exists>st. get_stats 20000000000 30000000000 stats_db = (Inr st, stats_db) \<and>
      added_count st = 0 \<and> total_weight st = 0 \<and> avg_length st = 0 \<and> avg_weight st = 0 \<and>
      min_length st = 0 \<and> max_length st = 0 \<and> min_weight st = 0 \<and> max_weight st = 0)"
proof -
  have pk: "primary_key stats_db"
    by (simp add: primary_key_def stats_db_def)
  have inside: "addedSet 1000 10000000000 stats_db =
     {\<lparr>id_col = 1, length_col = 5, weight = 10, date_added = Some 1000, date_removed = None\<rparr>,
      \<lparr>id_col = 2, length_col = 10, weight = 20, date_added = Some 2000,
         date_removed = Some 7200002000\<rparr>,
      \<lparr>id_col = 3, length_col = 15, weight = 30, date_added = Some 3000, date_removed = None\<rparr>}"
    by (auto simp: addedSet_def in_window_def stats_db_def)
  have outside: "addedSet 20000000000 30000000000 stats_db = {}"
    by (auto simp: addedSet_def in_window_def stats_db_def)
  from get_stats_added [OF pk, of 1000 10000000000]
  have first: "\<exists>st. get_stats 1000 10000000000 stats_db = (Inr st, stats_db) \<and>
      added_count st = 3 \<and> total_weight st = 60 \<and> avg_length st = 10 \<and> avg_weight st = 20 \<and>
      min_length st = 5 \<and> max_length st = 15 \<and> min_weight st = 10 \<and> max_weight st = 30"
    unfolding inside by simp
  from get_stats_added [OF pk, of 20000000000 30000000000]
  have second: "\<exists>st. get_stats 20000000000 30000000000 stats_db = (Inr st, stats_db) \<and>
      added_count st = 0 \<and> total_weight st = 0 \<and> avg_length st = 0 \<and> avg_weight st = 0 \<and>
      min_length st = 0 \<and> max_length st = 0 \<and> min_weight st = 0 \<and> max_weight st = 0"
    unfolding outside by auto
  from pk first second show ?thesis by (intro conjI)
qed

section \<open>Claim C5: statistics of the rolls removed in the window\<close>

text \<open>
  Claim C5. On a table that satisfies the primary-key constraint, \<open>get_stats\<close> returns a
  \<open>RollStats\<close> record in which \<open>removed_count\<close> is the number of rolls of \<open>removedSet\<close>
  (selected by \<open>date_removed\<close> alone), and \<open>min_gap\<close> and \<open>max_gap\<close> are the least and
  greatest gap, in hours, over the rolls of \<open>removedSet\<close> that have both timestamps;
  both are 0 when there is no such roll.
\<close>

theorem get_stats_removed:
  assumes "primary_key db"
  shows "\<exists>st. get_stats startDate endDate db = (Inr st, db) \<and>
     removed_count st = int (card (removedSet startDate endDate db)) \<and>
     (gapSet startDate endDate db \<noteq> {} \<longrightarrow>
        min_gap st = Min (gapSet startDate endDate db) \<and>
        max_gap st = Max (gapSet startDate endDate db)) \<and>
     (gapSet startDate endDate db = {} \<longrightarrow> min_gap st = 0 \<and> max_gap st = 0)"
proof -
  let ?R = "filter (\<lambda>roll. between (date_removed roll) startDate endDate) db"
  from assms have "distinct ?R" by (simp add: primary_key_distinct)
  then have "length ?R = card (set ?R)" by (simp only: distinct_card)
  then have len: "length ?R = card (removedSet startDate endDate db)"
    by (simp only: set_removed)
  have gaps: "set (gaps_of ?R) = gapSet startDate endDate db"
    by (rule set_gaps_removed)
  have empty: "gaps_of ?R = [] \<longleftrightarrow> gapSet startDate endDate db = {}"
    unfolding gaps [symmetric] by simp
  show ?thesis
    unfolding get_stats_value by (simp add: len gaps empty)
qed

theorem get_stats_removed_witness:
  "primary_key stats_db \<and>
   (\<exists>st. get_stats 1000 10000000000 stats_db = (Inr st, stats_db) \<and>
      removed_count st = 2 \<and> min_gap st = 1 \<and> max_gap st = 2) \<and>
   (\<exists>st. get_stats 20000000000 30000000000 stats_db = (Inr st, stats_db) \<and>
      removed_count st = 0 \<and> min_gap st = 0 \<and> max_gap st = 0)"
proof -
  have pk: "primary_key stats_db"
    by (simp add: primary_key_def stats_db_def)
  have inside: "removedSet 1000 10000000000 stats_db =
     {\<lparr>id_col = 2, length_col = 10, weight = 20, date_added = Some 2000,
         date_removed = Some 7200002000\<rparr>,
      \<lparr>id_col = 4, length_col = 100, weight = 200, date_added = Some 0,
         date_removed = Some 3600000000\<rparr>}"
    by (auto simp: removedSet_def in_window_def stats_db_def)
  have outside: "removedSet 20000000000 30000000000 stats_db = {}"
    by (auto simp: removedSet_def in_window_def stats_db_def)
  have both: "{r \<in> removedSet 1000 10000000000 stats_db.
       date_added r \<noteq> None \<and> date_removed r \<noteq> None} = removedSet 1000 10000000000 stats_db"
    unfolding inside by auto
  have gaps_inside: "gapSet 1000 10000000000 stats_db = {2, 1}"
    unfolding gapSet_def both unfolding inside by (simp add: gap_def)
  have gaps_outside: "gapSet 20000000000 30000000000 stats_db = {}"
    unfolding gapSet_def outside by simp
  from get_stats_removed [OF pk, of 1000 10000000000]
  have first: "\<exists>st. get_stats 1000 10000000000 stats_db = (Inr st, stats_db) \<and>
      removed_count st = 2 \<and> min_gap st = 1 \<and> max_gap st = 2"
    unfolding gaps_inside inside by simp
  from get_stats_removed [OF pk, of 20000000000 30000000000]
  have second: "\<exists>st. get_stats 20000000000 30000000000 stats_db = (Inr st, stats_db) \<and>
      removed_count st = 0 \<and> min_gap st = 0 \<and> max_gap st = 0"
    unfolding gaps_outside outside by simp
  from pk first second show ?thesis by (intro conjI)
qed

section \<open>Claim C6: filtered listing\<close>

lemma satisfies_bounds_iff:
  "satisfies_bounds lmin lmax wmin wmax amin amax rmin rmax r \<longleftrightarrow>
     (case lmin of None \<Rightarrow> True | Some m \<Rightarrow> length_col r \<ge> m) \<and>
     (case lmax of None \<Rightarrow> True | Some m \<Rightarrow> length_col r \<le> m) \<and>
     (case wmin of None \<Rightarrow> True | Some m \<Rightarrow> weight r \<ge> m) \<and>
     (case wmax of None \<Rightarrow> True | Some m \<Rightarrow> weight r \<le> m) \<and>
     (case amin of None \<Rightarrow> True | Some m \<Rightarrow> sql_ge (date_added r) m) \<and>
     (case amax of None \<Rightarrow> True | Some m \<Rightarrow> sql_le (date_added r) m) \<and>
     (case rmin of None \<Rightarrow> True | Some m \<Rightarrow> sql_ge (date_removed r) m) \<and>
     (case rmax of None \<Rightarrow> True | Some m \<Rightarrow> sql_le (date_removed r) m)"
  by (simp add: satisfies_bounds_def satisfies_min_def satisfies_max_def sql_ge_def sql_le_def
      split: option.split)

lemma get_rolls_filter:
  "get_rolls lmin lmax wmin wmax amin amax rmin rmax db =
     (Inr (filter (satisfies_bounds lmin lmax wmin wmax amin amax rmin rmax) db), db)"
proof -
  have "fst (get_rolls lmin lmax wmin wmax amin amax rmin rmax db) =
     Inr (filter (satisfies_bounds lmin lmax wmin wmax amin amax rmin rmax) db)"
    unfolding get_rolls_def Let_def fst_conv satisfies_bounds_iff
    by (cases lmin; cases lmax; cases wmin; cases wmax; cases amin; cases amax;
        cases rmin; cases rmax) (simp_all add: conj_commute conj_left_commute cong: filter_cong)
  moreover have "snd (get_rolls lmin lmax wmin wmax amin amax rmin rmax db) = db"
    by (simp add: get_rolls_def Let_def)
  ultimately show ?thesis by (simp add: prod_eq_iff)
qed

text \<open>
  Claim C6. For every table and every combination of the eight optional bounds,
  \<open>get_rolls\<close> raises nothing and returns the rows of the table that satisfy every
  present bound (inclusive comparison, a null field satisfying no bound), each once
  and in table order: exactly the matching records, which are all records when no
  bound is present, and the empty list when no record matches.
\<close>

theorem get_rolls_exactly_matching:
  "fst (get_rolls lengthMin lengthMax weightMin weightMax
          dateAddedMin dateAddedMax dateRemovedMin dateRemovedMax db) =
     Inr (filter (satisfies_bounds lengthMin lengthMax weightMin weightMax
                    dateAddedMin dateAddedMax dateRemovedMin dateRemovedMax) db) \<and>
   fst (get_rolls None None None None None None None None db) = Inr db \<and>
   ((\<forall>r \<in> set db. \<not> satisfies_bounds lengthMin lengthMax weightMin weightMax
                        dateAddedMin dateAddedMax dateRemovedMin dateRemovedMax r) \<longrightarrow>
      fst (get_rolls lengthMin lengthMax weightMin weightMax
             dateAddedMin dateAddedMax dateRemovedMin dateRemovedMax db) = Inr [])"
proof (intro conjI allI impI)
  show "fst (get_rolls None None None None None None None None db) = Inr db"
    by (simp add: get_rolls_def)
qed (simp_all add: get_rolls_filter)

theorem get_rolls_exactly_matching_witness:
  "fst (get_rolls (Some 10) (Some 15) None None None None None None stats_db) =
     Inr [\<lparr>id_col = 2, length_col = 10, weight = 20, date_added = Some 2000,
            date_removed = Some 7200002000\<rparr>,
          \<lparr>id_col = 3, length_col = 15, weight = 30, date_added = Some 3000,
            date_removed = None\<rparr>] \<and>
   fst (get_rolls None None None None None None (Some 0) None stats_db) =
     Inr [\<lparr>id_col = 2, length_col = 10, weight = 20, date_added = Some 2000,
            date_removed = Some 7200002000\<rparr>,
          \<lparr>id_col = 4, length_col = 100, weight = 200, date_added = Some 0,
            date_removed = Some 3600000000\<rparr>] \<and>
   fst (get_rolls (Some 1000) None None None None None None None stats_db) = Inr []"
proof -
  note a = get_rolls_exactly_matching [of "Some 10" "Some 15" None None None None None None stats_db,
      THEN conjunct1]
  note b = get_rolls_exactly_matching [of None None None None None None "Some 0" None stats_db,
      THEN conjunct1]
  note c = get_rolls_exactly_matching [of "Some 1000" None None None None None None None stats_db,
      THEN conjunct2, THEN conjunct2]
  have none: "\<forall>r \<in> set stats_db. \<not> satisfies_bounds (Some 1000) None None None None None None None r"
    by (simp add: stats_db_def satisfies_bounds_def satisfies_min_def satisfies_max_def)
  from a have a': "fst (get_rolls (Some 10) (Some 15) None None None None None None stats_db) =
     Inr [\<lparr>id_col = 2, length_col = 10, weight = 20, date_added = Some 2000,
            date_removed = Some 7200002000\<rparr>,
          \<lparr>id_col = 3, length_col = 15, weight = 30, date_added = Some 3000,
            date_removed = None\<rparr>]"
    by (simp add: stats_db_def satisfies_bounds_def satisfies_min_def satisfies_max_def)
  from b have b': "fst (get_rolls None None None None None None (Some 0) None stats_db) =
     Inr [\<lparr>id_col = 2, length_col = 10, weight = 20, date_added = Some 2000,
            date_removed = Some 7200002000\<rparr>,
          \<lparr>id_col = 4, length_col = 100, weight = 200, date_added = Some 0,
            date_removed = Some 3600000000\<rparr>]"
    by (simp add: stats_db_def satisfies_bounds_def satisfies_min_def satisfies_max_def)
  from c none have c': "fst (get_rolls (Some 1000) None None None None None None None stats_db) = Inr []"
    by (rule mp)
  from a' b' c' show ?thesis by (intro conjI)
qed

section \<open>Claim C7: what the operations do to a stored roll\<close>








end
